theory Spec2Isabelle
  imports Main
begin

section \<open>The process: exceptions, system calls, state\<close>

text \<open>
  The script \<^verbatim>\<open>fedora_install_package.py\<close> is a sequence of calls into the operating
  system (child processes, the file system) whose results decide what it does next.
  The model threads a process state through every function and returns either a value
  or the exception that ended the computation; \<^verbatim>\<open>sys.exit(n)\<close> raises
  \<^verbatim>\<open>SystemExit\<close>, as in Python, and nothing in the script catches it.
\<close>

datatype exn =
    SystemExit int
  | OSError
  | KeyError
  | TypeError
  | CalledProcessError
  | GetoptError string
  | ReError

text \<open>Every call that leaves the process is logged, in order, with its arguments.\<close>

datatype syscall =
    Exec "string list"
  | CheckOutput "string list"
  | Stat string
  | Readlink string
  | Unlink string
  | Rmtree string
  | Creat string string
  | Chdir string

text \<open>
  The attributes of class \<^verbatim>\<open>PkgSystem\<close>. Python mangles \<^verbatim>\<open>self.__verbose\<close> to
  \<^verbatim>\<open>_PkgSystem__verbose\<close>; the fields keep that shape. A path that \<^verbatim>\<open>which\<close> did
  not find is \<^verbatim>\<open>None\<close>.
\<close>

record PkgSystem =
  PkgSystem_verbose :: int
  PkgSystem_distro_id :: "string option"
  PkgSystem_release :: "string option"
  PkgSystem_pkgr_path :: "string option"
  PkgSystem_pkgmgr_path :: "string option"
  PkgSystem_wget_path :: "string option"
  PkgSystem_local_repo_path :: string
  PkgSystem_local_rpm_dir :: string
  PkgSystem_debuginfo_install :: "string option list"

text \<open>The class attributes of lines 40-47: what an attribute reads before any assignment.\<close>

definition PkgSystem_class :: PkgSystem where
  "PkgSystem_class =
     \<lparr> PkgSystem_verbose = 0,
       PkgSystem_distro_id = None,
       PkgSystem_release = None,
       PkgSystem_pkgr_path = None,
       PkgSystem_pkgmgr_path = None,
       PkgSystem_wget_path = None,
       PkgSystem_local_repo_path = [],
       PkgSystem_local_rpm_dir = [],
       PkgSystem_debuginfo_install = [] \<rparr>"

text \<open>
  The host outside the process (package database, file system, network) has a state of
  some type \<open>'w\<close>; how it answers is a parameter of the model. \<open>env_exec\<close> is
  \<^verbatim>\<open>subprocess.call\<close> (the exit status, or the exception when the program cannot be
  started), \<open>env_check_output\<close> is \<^verbatim>\<open>subprocess.check_output\<close>, \<open>env_exists\<close> is
  \<^verbatim>\<open>os.path.exists\<close>, \<open>env_write\<close> is opening a file for writing, writing the text
  and closing it, \<open>env_PATH\<close> is \<^verbatim>\<open>os.environ["PATH"]\<close>, and \<open>env_re_sub\<close> is
  \<^verbatim>\<open>re.sub\<close> on the patterns and replacements that \<open>re_sub\<close> below does not
  compute itself.
\<close>

record 'w env =
  env_exec :: "string list \<Rightarrow> 'w \<Rightarrow> (exn + int) \<times> 'w"
  env_check_output :: "string list \<Rightarrow> 'w \<Rightarrow> (exn + string) \<times> 'w"
  env_exists :: "string \<Rightarrow> 'w \<Rightarrow> bool"
  env_readlink :: "string \<Rightarrow> 'w \<Rightarrow> exn + string"
  env_remove :: "string \<Rightarrow> 'w \<Rightarrow> exn + 'w"
  env_rmtree :: "string \<Rightarrow> 'w \<Rightarrow> exn + 'w"
  env_write :: "string \<Rightarrow> string \<Rightarrow> 'w \<Rightarrow> exn + 'w"
  env_chdir :: "string \<Rightarrow> 'w \<Rightarrow> exn + 'w"
  env_PATH :: "'w \<Rightarrow> string option"
  env_linux_distribution :: "'w \<Rightarrow> exn + string \<times> string \<times> string"
  env_re_sub :: "string \<Rightarrow> string \<Rightarrow> string \<Rightarrow> exn + string"

record 'w proc =
  self :: PkgSystem
  host :: 'w
  trace :: "syscall list"
  stdout :: "string list"
  stderr :: "string list"

type_synonym ('a, 'w) run = "'w proc \<Rightarrow> (exn + 'a) \<times> 'w proc"

definition ret :: "'a \<Rightarrow> ('a, 'w) run" where
  "ret x s = (Inr x, s)"

definition raise :: "exn \<Rightarrow> ('a, 'w) run" where
  "raise e s = (Inl e, s)"

definition bind :: "('a, 'w) run \<Rightarrow> ('a \<Rightarrow> ('b, 'w) run) \<Rightarrow> ('b, 'w) run" where
  "bind m f s = (case m s of (Inl e, s') \<Rightarrow> (Inl e, s') | (Inr x, s') \<Rightarrow> f x s')"

definition get_self :: "(PkgSystem, 'w) run" where
  "get_self s = (Inr (self s), s)"

definition set_self :: "(PkgSystem \<Rightarrow> PkgSystem) \<Rightarrow> (unit, 'w) run" where
  "set_self f s = (Inr (), s\<lparr>self := f (self s)\<rparr>)"

definition sys_exit :: "int \<Rightarrow> ('a, 'w) run" where
  "sys_exit n = raise (SystemExit n)"

text \<open>\<^verbatim>\<open>print(msg)\<close> writes one line to standard output, \<^verbatim>\<open>_eprint(msg)\<close> one to standard error.\<close>

definition print :: "string \<Rightarrow> (unit, 'w) run" where
  "print msg s = (Inr (), s\<lparr>stdout := stdout s @ [msg]\<rparr>)"

definition eprint :: "string \<Rightarrow> (unit, 'w) run" where
  "eprint msg s = (Inr (), s\<lparr>stderr := stderr s @ [msg]\<rparr>)"

text \<open>
  \<^verbatim>\<open>subprocess.call(argv)\<close>: an argument that is \<^verbatim>\<open>None\<close> raises \<^verbatim>\<open>TypeError\<close> before any
  process is started.
\<close>

definition subprocess_call :: "'w env \<Rightarrow> string option list \<Rightarrow> (int, 'w) run" where
  "subprocess_call E argv s =
     (case those argv of
        None \<Rightarrow> (Inl TypeError, s)
      | Some av \<Rightarrow>
          (case env_exec E av (host s) of
             (r, w) \<Rightarrow> (r, s\<lparr>host := w, trace := trace s @ [Exec av]\<rparr>)))"

definition subprocess_check_output :: "'w env \<Rightarrow> string list \<Rightarrow> (string, 'w) run" where
  "subprocess_check_output E av s =
     (case env_check_output E av (host s) of
        (r, w) \<Rightarrow> (r, s\<lparr>host := w, trace := trace s @ [CheckOutput av]\<rparr>))"

definition os_path_exists :: "'w env \<Rightarrow> string \<Rightarrow> (bool, 'w) run" where
  "os_path_exists E p s = (Inr (env_exists E p (host s)), s\<lparr>trace := trace s @ [Stat p]\<rparr>)"

definition os_readlink :: "'w env \<Rightarrow> string \<Rightarrow> (string, 'w) run" where
  "os_readlink E p s = (env_readlink E p (host s), s\<lparr>trace := trace s @ [Readlink p]\<rparr>)"

definition os_remove :: "'w env \<Rightarrow> string \<Rightarrow> (unit, 'w) run" where
  "os_remove E p s =
     (case env_remove E p (host s) of
        Inl e \<Rightarrow> (Inl e, s\<lparr>trace := trace s @ [Unlink p]\<rparr>)
      | Inr w \<Rightarrow> (Inr (), s\<lparr>host := w, trace := trace s @ [Unlink p]\<rparr>))"

definition shutil_rmtree :: "'w env \<Rightarrow> string \<Rightarrow> (unit, 'w) run" where
  "shutil_rmtree E p s =
     (case env_rmtree E p (host s) of
        Inl e \<Rightarrow> (Inl e, s\<lparr>trace := trace s @ [Rmtree p]\<rparr>)
      | Inr w \<Rightarrow> (Inr (), s\<lparr>host := w, trace := trace s @ [Rmtree p]\<rparr>))"

definition write_file :: "'w env \<Rightarrow> string \<Rightarrow> string \<Rightarrow> (unit, 'w) run" where
  "write_file E p text s =
     (case env_write E p text (host s) of
        Inl e \<Rightarrow> (Inl e, s\<lparr>trace := trace s @ [Creat p text]\<rparr>)
      | Inr w \<Rightarrow> (Inr (), s\<lparr>host := w, trace := trace s @ [Creat p text]\<rparr>))"

definition os_chdir :: "'w env \<Rightarrow> string \<Rightarrow> (unit, 'w) run" where
  "os_chdir E p s =
     (case env_chdir E p (host s) of
        Inl e \<Rightarrow> (Inl e, s\<lparr>trace := trace s @ [Chdir p]\<rparr>)
      | Inr w \<Rightarrow> (Inr (), s\<lparr>host := w, trace := trace s @ [Chdir p]\<rparr>))"

section \<open>Strings and paths\<close>

definition quoted :: "string \<Rightarrow> string" where
  "quoted x = [CHR 0x27] @ x @ [CHR 0x27]"

text \<open>\<^verbatim>\<open>'%s' % x\<close>: a string is itself, \<^verbatim>\<open>None\<close> prints as \<^verbatim>\<open>None\<close>.\<close>

fun fmt_s :: "string option \<Rightarrow> string" where
  "fmt_s (Some x) = x"
| "fmt_s None = ''None''"

text \<open>\<^verbatim>\<open>str.lower\<close> and \<^verbatim>\<open>str.strip\<close> on byte strings: only ASCII letters and blanks count.\<close>

definition lower_char :: "char \<Rightarrow> char" where
  "lower_char c =
     (case map_of (zip ''ABCDEFGHIJKLMNOPQRSTUVWXYZ'' ''abcdefghijklmnopqrstuvwxyz'') c of
        Some l \<Rightarrow> l
      | None \<Rightarrow> c)"

definition lower :: "string \<Rightarrow> string" where
  "lower x = map lower_char x"

definition is_space :: "char \<Rightarrow> bool" where
  "is_space c = (let n = (of_char c :: nat) in n = 32 \<or> (9 \<le> n \<and> n \<le> 13))"

definition strip :: "string \<Rightarrow> string" where
  "strip x = rev (dropWhile is_space (rev (dropWhile is_space x)))"

text \<open>
  \<^verbatim>\<open>os.path.basename(p)\<close> is \<^verbatim>\<open>p[p.rfind('/') + 1:]\<close>: what follows the last slash.
\<close>

definition basename :: "string \<Rightarrow> string" where
  "basename p = rev (takeWhile (\<lambda>c. c \<noteq> CHR ''/'') (rev p))"

text \<open>\<^verbatim>\<open>os.path.join(a, b)\<close> of posixpath, for two components.\<close>

definition os_path_join :: "string \<Rightarrow> string \<Rightarrow> string" where
  "os_path_join a b =
     (if b \<noteq> [] \<and> hd b = CHR ''/'' then b
      else if a = [] \<or> last a = CHR ''/'' then a @ b
      else a @ ''/'' @ b)"

text \<open>\<^verbatim>\<open>x.split(sep)\<close> for a one-character separator: always at least one field.\<close>

fun split_on :: "char \<Rightarrow> string \<Rightarrow> string list" where
  "split_on sep [] = [[]]"
| "split_on sep (c # cs) =
     (if c = sep then [] # split_on sep cs
      else (case split_on sep cs of [] \<Rightarrow> [[c]] | f # fs \<Rightarrow> (c # f) # fs))"

section \<open>Regular expressions\<close>

text \<open>
  The three uses of module \<^verbatim>\<open>re\<close>. A compiled pattern is a syntax tree; \<open>rx_run\<close> is
  the backtracking matcher: it walks the subject string \<open>s\<close> from index \<open>i\<close> with the
  groups \<open>g\<close> captured so far, and hands the index and groups after a match to the
  continuation \<open>k\<close>; when the continuation fails, the next alternative is tried, the
  longer repetition first (the quantifiers are greedy). \<open>Bos\<close> is \<^verbatim>\<open>^\<close> and \<open>Eos\<close> is
  \<^verbatim>\<open>$\<close> without the MULTILINE flag: \<^verbatim>\<open>$\<close> matches at the end of the string and just
  before a newline that ends the string.
\<close>

datatype rx =
    Lit char
  | Set "char \<Rightarrow> bool"
  | Cat rx rx
  | Plus rx
  | Opt rx
  | Grp nat rx
  | Bos
  | Eos

function (sequential) rx_run ::
  "string \<Rightarrow> rx \<Rightarrow> nat \<Rightarrow> (nat \<rightharpoonup> string) \<Rightarrow> (nat \<Rightarrow> (nat \<rightharpoonup> string) \<Rightarrow> 'a option) \<Rightarrow> 'a option"
where
  "rx_run s (Lit c) i g k = (if i < length s \<and> s ! i = c then k (Suc i) g else None)"
| "rx_run s (Set P) i g k = (if i < length s \<and> P (s ! i) then k (Suc i) g else None)"
| "rx_run s (Cat a b) i g k = rx_run s a i g (\<lambda>j h. rx_run s b j h k)"
| "rx_run s (Plus a) i g k =
     rx_run s a i g (\<lambda>j h.
       if i < j \<and> j \<le> length s
       then (case rx_run s (Plus a) j h k of Some x \<Rightarrow> Some x | None \<Rightarrow> k j h)
       else k j h)"
| "rx_run s (Opt a) i g k = (case rx_run s a i g k of Some x \<Rightarrow> Some x | None \<Rightarrow> k i g)"
| "rx_run s (Grp n a) i g k = rx_run s a i g (\<lambda>j h. k j (h(n \<mapsto> take (j - i) (drop i s))))"
| "rx_run s Bos i g k = (if i = 0 then k i g else None)"
| "rx_run s Eos i g k =
     (if i = length s \<or> (Suc i = length s \<and> s ! i = CHR 0x0A) then k i g else None)"
  by pat_completeness auto
termination
  by (relation "measures [\<lambda>(s, r, i, g, k). size r, \<lambda>(s, r, i, g, k). length s - i]") auto

text \<open>
  \<^verbatim>\<open>pattern.match(s)\<close> matches at the start of \<open>s\<close>; the match object is the map from
  group numbers to the text they captured, \<^verbatim>\<open>None\<close> when there is no match.
\<close>

definition re_match :: "rx \<Rightarrow> string \<Rightarrow> (nat \<rightharpoonup> string) option" where
  "re_match r s = rx_run s r 0 Map.empty (\<lambda>j g. Some g)"

text \<open>\<^verbatim>\<open>\w\<close> on a byte string: letters, digits and the underscore.\<close>

definition is_word :: "char \<Rightarrow> bool" where
  "is_word c =
     (let n = (of_char c :: nat) in
      (48 \<le> n \<and> n \<le> 57) \<or> (65 \<le> n \<and> n \<le> 90) \<or> (97 \<le> n \<and> n \<le> 122) \<or> n = 95)"

definition not_hyphen :: "char \<Rightarrow> bool" where
  "not_hyphen c = (c \<noteq> CHR ''-'')"

text \<open>Line 163: \<^verbatim>\<open>^(\w+)-([^-]+)-([^-]+)\.(\w+)$\<close>.\<close>

definition nvra_regexp :: rx where
  "nvra_regexp =
     Cat Bos
    (Cat (Grp 1 (Plus (Set is_word)))
    (Cat (Lit (CHR ''-''))
    (Cat (Grp 2 (Plus (Set not_hyphen)))
    (Cat (Lit (CHR ''-''))
    (Cat (Grp 3 (Plus (Set not_hyphen)))
    (Cat (Lit (CHR ''.''))
    (Cat (Grp 4 (Plus (Set is_word)))
         Eos)))))))"

text \<open>Line 288: \<^verbatim>\<open>^kernel(-\w+)?\<close>.\<close>

definition kernel_regexp :: rx where
  "kernel_regexp =
     Cat Bos
    (Cat (Lit (CHR ''k''))
    (Cat (Lit (CHR ''e''))
    (Cat (Lit (CHR ''r''))
    (Cat (Lit (CHR ''n''))
    (Cat (Lit (CHR ''e''))
    (Cat (Lit (CHR ''l''))
         (Opt (Grp 1 (Cat (Lit (CHR ''-'')) (Plus (Set is_word)))))))))))"

text \<open>
  \<^verbatim>\<open>re.sub(pattern, repl, s)\<close> with a pattern given as a string. The pattern is
  compiled first. A pattern whose only special characters are opening parentheses opens a
  group that it never closes, and compiling it raises \<^verbatim>\<open>re.error\<close>, whatever the
  replacement and the string are. A pattern made of characters that are not special in
  a regular expression matches itself, and a replacement without a backslash stands for
  itself: every occurrence of the pattern, from the left and without overlap, is
  replaced. These two cases are computed here; any other pattern or replacement is left
  to \<open>env_re_sub\<close>, which may also raise.
\<close>

definition re_special :: "char \<Rightarrow> bool" where
  "re_special c = (c \<in> set ''.^$*+?{}[]()|'' \<or> c = CHR 0x5C)"

function sub_plain :: "string \<Rightarrow> string \<Rightarrow> string \<Rightarrow> string" where
  "sub_plain pat repl s =
     (if s = [] \<or> pat = [] then s
      else if take (length pat) s = pat then repl @ sub_plain pat repl (drop (length pat) s)
      else hd s # sub_plain pat repl (tl s))"
  by pat_completeness auto
termination
  by (relation "measure (\<lambda>(pat, repl, s). length s)") auto

definition unclosed_group :: "string \<Rightarrow> bool" where
  "unclosed_group pat =
     (CHR ''('' \<in> set pat \<and> \<not> list_ex (\<lambda>c. re_special c \<and> c \<noteq> CHR ''('') pat)"

definition re_sub :: "'w env \<Rightarrow> string \<Rightarrow> string \<Rightarrow> string \<Rightarrow> exn + string" where
  "re_sub E pat repl s =
     (if unclosed_group pat then Inl ReError
      else if pat \<noteq> [] \<and> \<not> list_ex re_special pat \<and> CHR 0x5C \<notin> set repl
      then Inr (sub_plain pat repl s)
      else env_re_sub E pat repl s)"

section \<open>Class PkgSystem\<close>

text \<open>Lines 26-32: the first directory of \<^verbatim>\<open>PATH\<close> that holds the command.\<close>

fun which_loop :: "'w env \<Rightarrow> string \<Rightarrow> string list \<Rightarrow> (string option, 'w) run" where
  "which_loop E cmd [] = ret None"
| "which_loop E cmd (path # paths) =
     bind (os_path_exists E (os_path_join path cmd)) (\<lambda>found.
       if found then ret (Some (os_path_join path cmd)) else which_loop E cmd paths)"

definition which :: "'w env \<Rightarrow> string \<Rightarrow> (string option, 'w) run" where
  "which E cmd s =
     (case env_PATH E (host s) of
        None \<Rightarrow> (Inl KeyError, s)
      | Some v \<Rightarrow> which_loop E cmd (split_on (CHR '':'') v) s)"

text \<open>
  Lines 61-70: \<^verbatim>\<open>check_output\<close> inside \<^verbatim>\<open>try\<close>; a \<^verbatim>\<open>CalledProcessError\<close> is dropped and
  the attribute keeps its value, any other exception goes on.
\<close>

definition try_check_output ::
  "'w env \<Rightarrow> string list \<Rightarrow> (string \<Rightarrow> PkgSystem \<Rightarrow> PkgSystem) \<Rightarrow> (unit, 'w) run" where
  "try_check_output E av store s =
     (case subprocess_check_output E av s of
        (Inr out, s') \<Rightarrow> set_self (store (strip out)) s'
      | (Inl CalledProcessError, s') \<Rightarrow> (Inr (), s')
      | (Inl e, s') \<Rightarrow> (Inl e, s'))"

definition platform_linux_distribution :: "'w env \<Rightarrow> (string \<times> string \<times> string, 'w) run" where
  "platform_linux_distribution E s = (env_linux_distribution E (host s), s)"

text \<open>
  Lines 49-97. Line 50 is \<^verbatim>\<open>__verbose = verbose\<close>: it binds a local variable of
  \<^verbatim>\<open>__init__\<close>, not an attribute, so the argument \<open>verbose\<close> is dropped and
  \<^verbatim>\<open>self.__verbose\<close> keeps reading the class attribute of line 40.
\<close>

definition PkgSystem_init :: "'w env \<Rightarrow> int \<Rightarrow> (unit, 'w) run" where
  "PkgSystem_init E verbose =
     bind (which E ''lsb_release'') (\<lambda>lsb_release.
     bind (case lsb_release of
             None \<Rightarrow> ret ()
           | Some lsb \<Rightarrow>
               bind (try_check_output E [lsb, ''-is'']
                       (\<lambda>out me. me\<lparr>PkgSystem_distro_id := Some out\<rparr>)) (\<lambda>_.
               try_check_output E [lsb, ''-rs'']
                       (\<lambda>out me. me\<lparr>PkgSystem_release := Some out\<rparr>))) (\<lambda>_.
     bind get_self (\<lambda>me.
     bind (if PkgSystem_distro_id me = None
           then bind (platform_linux_distribution E) (\<lambda>(distname, version, ident).
                  set_self (\<lambda>me. me\<lparr>PkgSystem_distro_id := Some distname\<rparr>))
           else ret ()) (\<lambda>_.
     bind get_self (\<lambda>me.
     bind (if PkgSystem_release me = None
           then bind (platform_linux_distribution E) (\<lambda>(distname, version, ident).
                  set_self (\<lambda>me. me\<lparr>PkgSystem_release := Some version\<rparr>))
           else ret ()) (\<lambda>_.
     bind (which E ''rpm'') (\<lambda>rpm.
     bind (set_self (\<lambda>me. me\<lparr>PkgSystem_pkgr_path := rpm\<rparr>)) (\<lambda>_.
     if rpm = None
     then bind (eprint ''Can't find the 'rpm' executable.'') (\<lambda>_. sys_exit 1)
     else
     bind (which E ''dnf'') (\<lambda>dnf.
     bind (set_self (\<lambda>me. me\<lparr>PkgSystem_pkgmgr_path := dnf,
                               PkgSystem_debuginfo_install := [dnf, Some ''debuginfo-install'']\<rparr>)) (\<lambda>_.
     bind (if dnf = None
           then bind (which E ''yum'') (\<lambda>yum.
                bind (set_self (\<lambda>me. me\<lparr>PkgSystem_pkgmgr_path := yum\<rparr>)) (\<lambda>_.
                bind (which E ''debuginfo-install'') (\<lambda>dbg.
                set_self (\<lambda>me. me\<lparr>PkgSystem_debuginfo_install := [dbg]\<rparr>))))
           else ret ()) (\<lambda>_.
     bind get_self (\<lambda>me.
     if PkgSystem_pkgmgr_path me = None
     then bind (eprint ''Can't find a package manager (either 'dnr' or 'yum').'') (\<lambda>_. sys_exit 1)
     else
     bind (which E ''wget'') (\<lambda>wget.
     set_self (\<lambda>me. me\<lparr>PkgSystem_wget_path := wget\<rparr>))))))))))))))"

text \<open>\<^verbatim>\<open>PkgSystem(verbose)\<close>: a fresh object reads the class attributes, then \<^verbatim>\<open>__init__\<close> runs.\<close>

definition PkgSystem_new :: "'w env \<Rightarrow> int \<Rightarrow> (unit, 'w) run" where
  "PkgSystem_new E verbose = bind (set_self (\<lambda>_. PkgSystem_class)) (\<lambda>_. PkgSystem_init E verbose)"

text \<open>\<^verbatim>\<open>if self.__verbose: print(msg)\<close>.\<close>

definition print_if_verbose :: "string \<Rightarrow> (unit, 'w) run" where
  "print_if_verbose msg =
     bind get_self (\<lambda>me. if PkgSystem_verbose me \<noteq> 0 then print msg else ret ())"

text \<open>Lines 103-104: \<^verbatim>\<open>build_id[:2]\<close> and \<^verbatim>\<open>build_id[2:]\<close> never raise, whatever the length.\<close>

definition build_id_path :: "string \<Rightarrow> string" where
  "build_id_path build_id =
     ''/usr/lib/debug/.build-id/'' @ take 2 build_id @ ''/'' @ drop 2 build_id"

text \<open>Lines 99-124. The results are Python's \<^verbatim>\<open>0\<close> and \<^verbatim>\<open>1\<close>.\<close>

definition build_id_is_valid :: "'w env \<Rightarrow> string \<Rightarrow> string \<Rightarrow> (int, 'w) run" where
  "build_id_is_valid E name build_id =
     bind (os_path_exists E (build_id_path build_id)) (\<lambda>found.
     if \<not> found
     then bind (print_if_verbose (''Build id '' @ build_id @ '' doesn't exist.'')) (\<lambda>_. ret 0)
     else
     bind (os_readlink E (build_id_path build_id)) (\<lambda>target.
     let sym_target = basename target;
         name = (if name = ''kernel'' then ''vmlinux'' else basename name)
     in if sym_target \<noteq> name
        then bind (print_if_verbose
                     (''Build id '' @ build_id @ '' doesn't match '' @ quoted name @ ''.''))
               (\<lambda>_. ret 0)
        else ret 1))"

text \<open>Lines 126-135.\<close>

definition pkg_exists :: "'w env \<Rightarrow> string \<Rightarrow> string \<Rightarrow> string \<Rightarrow> (int, 'w) run" where
  "pkg_exists E name pkg_nvr build_id =
     bind get_self (\<lambda>me.
     bind (subprocess_call E [PkgSystem_pkgr_path me, Some ''-qi'', Some pkg_nvr]) (\<lambda>rc.
     if rc \<noteq> 0 then ret 0
     else if build_id = []
     then bind (print_if_verbose (''Package '' @ pkg_nvr @ '' already exists on the system.''))
            (\<lambda>_. ret 1)
     else build_id_is_valid E name build_id))"

text \<open>Lines 137-151.\<close>

definition pkg_install :: "'w env \<Rightarrow> string \<Rightarrow> string \<Rightarrow> string \<Rightarrow> (int, 'w) run" where
  "pkg_install E name pkg_nvr build_id =
     bind get_self (\<lambda>me.
     bind (subprocess_call E
             [PkgSystem_pkgmgr_path me, Some ''install'', Some ''-y'', Some pkg_nvr]) (\<lambda>rc.
     if rc \<noteq> 0 then ret 0
     else if build_id = []
     then bind (print_if_verbose (''Package '' @ pkg_nvr @ '' installed.'')) (\<lambda>_. ret 1)
     else
     bind (subprocess_call E
             (PkgSystem_debuginfo_install me @ [Some ''-y'', Some pkg_nvr])) (\<lambda>rc.
     if rc \<noteq> 0 then ret 0
     else build_id_is_valid E name build_id)))"

text \<open>Lines 209-217: the text written to the repository file.\<close>

definition local_repo_text :: "string \<Rightarrow> string" where
  "local_repo_text local_rpm_dir =
     ''[local]'' @ [CHR 0x0A] @
     ''name=Local repository'' @ [CHR 0x0A] @
     ''baseurl=file://'' @ local_rpm_dir @ [CHR 0x0A] @
     ''enabled=1'' @ [CHR 0x0A] @
     ''gpgcheck=0'' @ [CHR 0x0A] @
     ''type=rpm'' @ [CHR 0x0A]"

text \<open>Lines 153-226.\<close>

definition pkg_download_and_install ::
  "'w env \<Rightarrow> string \<Rightarrow> string \<Rightarrow> string \<Rightarrow> (int, 'w) run" where
  "pkg_download_and_install E name pkg_nvr build_id =
     bind get_self (\<lambda>me.
     if PkgSystem_wget_path me = None
        \<or> (case PkgSystem_distro_id me of None \<Rightarrow> True | Some d \<Rightarrow> lower d \<noteq> ''fedora'')
     then bind (eprint (''Can't download package '' @ quoted pkg_nvr)) (\<lambda>_. ret 0)
     else
     case re_match nvra_regexp pkg_nvr of
       None \<Rightarrow> bind (eprint (''Can't parse package nvr '' @ quoted pkg_nvr)) (\<lambda>_. ret 0)
     | Some match \<Rightarrow>
     let pkg_name = match 1;
         pkg_version = match 2;
         pkg_release = match 3;
         pkg_arch = match 4;
         koji_url = ''http://kojipkgs.fedoraproject.org/packages/'' @ fmt_s pkg_name @ ''/''
                      @ fmt_s pkg_version @ ''/'' @ fmt_s pkg_release @ ''/'' @ fmt_s pkg_arch
     in
     bind (eprint (''URL: '' @ quoted koji_url)) (\<lambda>_.
     bind (subprocess_call E
             [Some ''wget'', Some ''--quiet'', Some ''-nH'', Some ''--cut-dirs=4'',
              Some ''-r'', Some ''-l'', Some ''1'', Some koji_url]) (\<lambda>rc.
     if rc \<noteq> 0
     then bind (eprint (''Can't download package '' @ quoted pkg_nvr)) (\<lambda>_. ret 0)
     else
     bind (set_self (\<lambda>me. me\<lparr>PkgSystem_local_repo_path := ''/etc/yum.repos.d/local.repo'',
                               PkgSystem_local_rpm_dir := ''/root/'' @ fmt_s pkg_arch\<rparr>)) (\<lambda>_.
     bind get_self (\<lambda>me.
     bind (os_path_exists E (PkgSystem_local_repo_path me)) (\<lambda>found.
     bind (if \<not> found
           then write_file E (PkgSystem_local_repo_path me)
                  (local_repo_text (PkgSystem_local_rpm_dir me))
           else ret ()) (\<lambda>_.
     bind (subprocess_call E [Some ''createrepo_c'', Some ''--quiet'', pkg_arch]) (\<lambda>rc.
     if rc \<noteq> 0
     then bind (eprint ''Can't run createrepo_c'') (\<lambda>_. ret 0)
     else pkg_install E name pkg_nvr build_id))))))))"

text \<open>Lines 228-233.\<close>

definition cleanup :: "'w env \<Rightarrow> (unit, 'w) run" where
  "cleanup E =
     bind get_self (\<lambda>me.
     bind (if PkgSystem_local_repo_path me \<noteq> []
           then os_remove E (PkgSystem_local_repo_path me)
           else ret ()) (\<lambda>_.
     bind get_self (\<lambda>me.
     if PkgSystem_local_rpm_dir me \<noteq> []
     then shutil_rmtree E (PkgSystem_local_rpm_dir me)
     else ret ())))"

section \<open>The command line\<close>

text \<open>
  \<^verbatim>\<open>getopt.getopt(args, shortopts, longopts)\<close> of the standard library, function by
  function. An option is a pair of its name, with the dashes, and its argument.
\<close>

definition startswith :: "string \<Rightarrow> string \<Rightarrow> bool" where
  "startswith x p = (take (length p) x = p)"

definition long_has_args :: "string \<Rightarrow> string list \<Rightarrow> exn + bool \<times> string" where
  "long_has_args opt longopts =
     (let possibilities = filter (\<lambda>x. startswith x opt) longopts
      in if possibilities = [] then Inl (GetoptError (''option --'' @ opt @ '' not recognized''))
         else if opt \<in> set possibilities then Inr (False, opt)
         else if opt @ ''='' \<in> set possibilities then Inr (True, opt)
         else if length possibilities > 1
         then Inl (GetoptError (''option --'' @ opt @ '' not a unique prefix''))
         else let unique_match = hd possibilities;
                  has_arg = (unique_match \<noteq> [] \<and> last unique_match = CHR ''='')
              in Inr (has_arg, if has_arg then butlast unique_match else unique_match))"

definition do_longs ::
  "(string \<times> string) list \<Rightarrow> string \<Rightarrow> string list \<Rightarrow> string list
     \<Rightarrow> exn + (string \<times> string) list \<times> string list" where
  "do_longs opts opt0 longopts args =
     (let (opt, optarg) =
            (if CHR ''='' \<in> set opt0
             then (takeWhile (\<lambda>c. c \<noteq> CHR ''='') opt0,
                   Some (tl (dropWhile (\<lambda>c. c \<noteq> CHR ''='') opt0)))
             else (opt0, None))
      in case long_has_args opt longopts of
           Inl e \<Rightarrow> Inl e
         | Inr (has_arg, opt) \<Rightarrow>
             if has_arg
             then (case optarg of
                     None \<Rightarrow>
                       (case args of
                          [] \<Rightarrow> Inl (GetoptError (''option --'' @ opt @ '' requires argument''))
                        | a # rest \<Rightarrow> Inr (opts @ [(''--'' @ opt, a)], rest))
                   | Some v \<Rightarrow> Inr (opts @ [(''--'' @ opt, v)], args))
             else (case optarg of
                     Some v \<Rightarrow>
                       Inl (GetoptError (''option --'' @ opt @ '' must not have an argument''))
                   | None \<Rightarrow> Inr (opts @ [(''--'' @ opt, [])], args)))"

fun short_has_arg :: "char \<Rightarrow> string \<Rightarrow> exn + bool" where
  "short_has_arg opt [] = Inl (GetoptError (''option -'' @ [opt] @ '' not recognized''))"
| "short_has_arg opt (c # cs) =
     (if opt = c \<and> c \<noteq> CHR '':'' then Inr (startswith cs '':'') else short_has_arg opt cs)"

fun do_shorts ::
  "(string \<times> string) list \<Rightarrow> string \<Rightarrow> string \<Rightarrow> string list
     \<Rightarrow> exn + (string \<times> string) list \<times> string list" where
  "do_shorts opts [] shortopts args = Inr (opts, args)"
| "do_shorts opts (opt # optstring) shortopts args =
     (case short_has_arg opt shortopts of
        Inl e \<Rightarrow> Inl e
      | Inr True \<Rightarrow>
          (if optstring = []
           then (case args of
                   [] \<Rightarrow> Inl (GetoptError (''option -'' @ [opt] @ '' requires argument''))
                 | a # rest \<Rightarrow> Inr (opts @ [(''-'' @ [opt], a)], rest))
           else Inr (opts @ [(''-'' @ [opt], optstring)], args))
      | Inr False \<Rightarrow> do_shorts (opts @ [(''-'' @ [opt], [])]) optstring shortopts args)"

lemma do_longs_length:
  "do_longs opts opt longopts args = Inr (opts', args') \<Longrightarrow> length args' \<le> length args"
  by (auto simp: do_longs_def Let_def split: if_splits sum.splits prod.splits option.splits list.splits)

lemma do_shorts_length:
  "do_shorts opts optstring shortopts args = Inr (opts', args') \<Longrightarrow> length args' \<le> length args"
  by (induction opts optstring shortopts args rule: do_shorts.induct)
     (auto split: if_splits sum.splits bool.splits list.splits)

function getopt_loop ::
  "(string \<times> string) list \<Rightarrow> string list \<Rightarrow> string \<Rightarrow> string list
     \<Rightarrow> exn + (string \<times> string) list \<times> string list" where
  "getopt_loop opts args shortopts longopts =
     (case args of
        [] \<Rightarrow> Inr (opts, args)
      | a # rest \<Rightarrow>
          if \<not> (startswith a ''-'' \<and> a \<noteq> ''-'') then Inr (opts, args)
          else if a = ''--'' then Inr (opts, rest)
          else if startswith a ''--''
          then (case do_longs opts (drop 2 a) longopts rest of
                  Inl e \<Rightarrow> Inl e
                | Inr (opts', args') \<Rightarrow> getopt_loop opts' args' shortopts longopts)
          else (case do_shorts opts (drop 1 a) shortopts rest of
                  Inl e \<Rightarrow> Inl e
                | Inr (opts', args') \<Rightarrow> getopt_loop opts' args' shortopts longopts))"
  by pat_completeness auto
termination
  by (relation "measure (\<lambda>(opts, args, shortopts, longopts). length args)")
     (auto dest: do_longs_length do_shorts_length)

definition getopt ::
  "string list \<Rightarrow> string \<Rightarrow> string list \<Rightarrow> exn + (string \<times> string) list \<times> string list" where
  "getopt args shortopts longopts = getopt_loop [] args shortopts longopts"

text \<open>Lines 235-239. \<^verbatim>\<open>sys.argv\<close> is the program name followed by the arguments.\<close>

definition usage_line :: "string \<Rightarrow> string" where
  "usage_line prog =
     ''Usage: '' @ prog @ '' [-v] --name NAME --pkg PACKAGE --build_id BUILD_ID''"

definition usage :: "string \<Rightarrow> ('a, 'w) run" where
  "usage prog = bind (eprint (usage_line prog)) (\<lambda>_. sys_exit 1)"

text \<open>Lines 256-264: one turn of the loop over the options.\<close>

definition handle_opt ::
  "int \<times> string \<times> string \<times> string \<Rightarrow> string \<times> string \<Rightarrow> int \<times> string \<times> string \<times> string"
where
  "handle_opt acc ov =
     (case (acc, ov) of ((verbose, name, pkg_nvr, build_id), (opt, v)) \<Rightarrow>
        if opt = ''-v'' then (verbose + 1, name, pkg_nvr, build_id)
        else if opt = ''--name'' then (verbose, v, pkg_nvr, build_id)
        else if opt = ''--pkg'' then (verbose, name, v, build_id)
        else if opt = ''--build_id'' then (verbose, name, pkg_nvr, v)
        else (verbose, name, pkg_nvr, build_id))"

text \<open>Lines 241-270.\<close>

definition handle_command_line ::
  "string \<Rightarrow> string list \<Rightarrow> (int \<times> string \<times> string \<times> string, 'w) run" where
  "handle_command_line prog args =
     (if length (prog # args) < 4 then usage prog
      else case getopt args ''v'' [''name='', ''pkg='', ''build_id=''] of
             Inl (GetoptError err) \<Rightarrow> bind (eprint (''Error: '' @ err)) (\<lambda>_. usage prog)
           | Inl e \<Rightarrow> raise e
           | Inr (opts, pargs) \<Rightarrow>
               (case foldl handle_opt (0, [], [], []) opts of
                  (verbose, name, pkg_nvr, build_id) \<Rightarrow>
                    if pargs \<noteq> [] then usage prog
                    else if name = [] \<or> pkg_nvr = [] \<or> build_id = []
                    then bind (eprint
                           ''Error: '--name', '--pkg', and '--build_id' are required arguments.'')
                           (\<lambda>_. usage prog)
                    else ret (verbose, name, pkg_nvr, build_id)))"

section \<open>The main function\<close>

text \<open>
  Lines 279-293: the list of packages. The kernel pattern is matched at the start of the
  name; the name itself is the pattern that \<^verbatim>\<open>re.sub\<close> looks for in the package nvr.
\<close>

definition packages_of ::
  "'w env \<Rightarrow> string \<Rightarrow> string \<Rightarrow> string \<Rightarrow> exn + (string \<times> string \<times> string) list" where
  "packages_of E name pkg_nvr build_id =
     (let packages = [(name, pkg_nvr, build_id)]
      in case re_match kernel_regexp name of
           None \<Rightarrow> Inr packages
         | Some match \<Rightarrow>
             (let devel_name = name @ ''-devel''
              in case re_sub E name devel_name pkg_nvr of
                   Inl e \<Rightarrow> Inl e
                 | Inr devel_nvr \<Rightarrow> Inr (packages @ [(devel_name, devel_nvr, [])])))"

text \<open>Lines 296-311: the loop over the packages; \<^verbatim>\<open>continue\<close> goes to the next one.\<close>

fun install_packages :: "'w env \<Rightarrow> (string \<times> string \<times> string) list \<Rightarrow> (unit, 'w) run" where
  "install_packages E [] = ret ()"
| "install_packages E ((name, pkg_nvr, build_id) # packages) =
     bind (pkg_exists E name pkg_nvr build_id) (\<lambda>r.
     if r \<noteq> 0 then install_packages E packages
     else
     bind (pkg_install E name pkg_nvr build_id) (\<lambda>r.
     if r \<noteq> 0 then install_packages E packages
     else
     bind (pkg_download_and_install E name pkg_nvr build_id) (\<lambda>r.
     if r \<noteq> 0 then install_packages E packages
     else
     bind (eprint (''Can't find package '' @ quoted pkg_nvr)) (\<lambda>_. sys_exit 1))))"

text \<open>Lines 272-319.\<close>

definition main :: "'w env \<Rightarrow> string \<Rightarrow> string list \<Rightarrow> (unit, 'w) run" where
  "main E prog args =
     bind (handle_command_line prog args) (\<lambda>(verbose, name, pkg_nvr, build_id).
     bind (os_chdir E ''/root'') (\<lambda>_.
     bind (case packages_of E name pkg_nvr build_id of
             Inl e \<Rightarrow> raise e
           | Inr packages \<Rightarrow> ret packages) (\<lambda>packages.
     bind (PkgSystem_new E verbose) (\<lambda>_.
     bind (install_packages E packages) (\<lambda>_.
     bind (if verbose \<noteq> 0 then print ''All packages installed.'' else ret ()) (\<lambda>_.
     bind (cleanup E) (\<lambda>_.
     sys_exit 0)))))))"

section \<open>A test host\<close>

text \<open>
  A small host to run the script on: the paths that exist, the symbolic links with their
  targets (every link resolves), the package database, what the package manager can
  install, whether the download and the indexing of the repository succeed, the
  distribution and the search path. The commands are told apart by their arguments.
\<close>

record test_host =
  files :: "string list"
  links :: "(string \<times> string) list"
  installed :: "string list"
  available :: "string list"
  fetchable :: bool
  indexable :: bool
  distribution :: string
  search_path :: "string option"

definition test_exec :: "string list \<Rightarrow> test_host \<Rightarrow> (exn + int) \<times> test_host" where
  "test_exec argv h =
     (case argv of
        [prog, a, nvr] \<Rightarrow>
          if a = ''-qi'' then (Inr (if nvr \<in> set (installed h) then 0 else 1), h)
          else if prog = ''createrepo_c'' then (Inr (if indexable h then 0 else 1), h)
          else (Inr 1, h)
      | [prog, a, b, nvr] \<Rightarrow>
          if a = ''install'' \<and> nvr \<in> set (available h)
          then (Inr 0, h\<lparr>installed := nvr # installed h\<rparr>)
          else (Inr 1, h)
      | [prog, a, b, c, d, e, f, url] \<Rightarrow>
          if prog = ''wget'' \<and> fetchable h
          then (Inr 0, h\<lparr>files := (''/root/'' @ basename url) # files h\<rparr>)
          else (Inr 1, h)
      | _ \<Rightarrow> (Inr 1, h))"

definition test_env :: "test_host env" where
  "test_env =
     \<lparr> env_exec = test_exec,
       env_check_output = (\<lambda>argv h. (Inl OSError, h)),
       env_exists = (\<lambda>p h. p \<in> set (files h) \<or> p \<in> set (map fst (links h))),
       env_readlink =
         (\<lambda>p h. case map_of (links h) p of None \<Rightarrow> Inl OSError | Some t \<Rightarrow> Inr t),
       env_remove =
         (\<lambda>p h. if p \<in> set (files h) then Inr (h\<lparr>files := removeAll p (files h)\<rparr>)
                 else Inl OSError),
       env_rmtree =
         (\<lambda>p h. if p \<in> set (files h)
                 then Inr (h\<lparr>files :=
                        filter (\<lambda>q. q \<noteq> p \<and> \<not> startswith q (p @ ''/'')) (files h)\<rparr>)
                 else Inl OSError),
       env_write = (\<lambda>p text h. Inr (h\<lparr>files := p # files h\<rparr>)),
       env_chdir = (\<lambda>p h. Inr h),
       env_PATH = search_path,
       env_linux_distribution = (\<lambda>h. Inr (distribution h, ''34'', [])),
       env_re_sub = (\<lambda>pat repl x. Inl ReError) \<rparr>"

text \<open>
  A Fedora host with the kernel and its development package installed, the kernel's
  build id linked to its debug file, and no other package to be had: the download works
  and the indexing of the downloaded directory fails.
\<close>

definition fedora :: test_host where
  "fedora =
     \<lparr> files = [''/usr/bin/rpm'', ''/usr/bin/dnf'', ''/usr/bin/wget''],
       links = [(''/usr/lib/debug/.build-id/ab/1234'',
                 ''../../lib/modules/5.10.0-1.x86_64/vmlinux'')],
       installed = [''kernel-5.10.0-1.x86_64'', ''kernel-devel-5.10.0-1.x86_64''],
       available = [],
       fetchable = True,
       indexable = False,
       distribution = ''Fedora'',
       search_path = Some ''/usr/local/bin:/usr/bin'' \<rparr>"

text \<open>The process as it starts, and as it is once \<^verbatim>\<open>PkgSystem(verbose)\<close> has probed the host.\<close>

definition start :: "'w \<Rightarrow> 'w proc" where
  "start h = \<lparr> self = PkgSystem_class, host = h, trace = [], stdout = [], stderr = [] \<rparr>"

definition probed :: "string \<Rightarrow> PkgSystem" where
  "probed distro =
     \<lparr> PkgSystem_verbose = 0,
       PkgSystem_distro_id = Some distro,
       PkgSystem_release = Some ''34'',
       PkgSystem_pkgr_path = Some ''/usr/bin/rpm'',
       PkgSystem_pkgmgr_path = Some ''/usr/bin/dnf'',
       PkgSystem_wget_path = Some ''/usr/bin/wget'',
       PkgSystem_local_repo_path = [],
       PkgSystem_local_rpm_dir = [],
       PkgSystem_debuginfo_install = [Some ''/usr/bin/dnf'', Some ''debuginfo-install''] \<rparr>"

definition ready :: "string \<Rightarrow> 'w \<Rightarrow> 'w proc" where
  "ready distro h = (start h)\<lparr>self := probed distro\<rparr>"

text \<open>
  The process after a manual download that left its repository file and its directory
  behind: both paths are recorded in the object and both exist on the host.
\<close>

definition littered :: "test_host proc" where
  "littered =
     (ready ''Fedora''
        (fedora\<lparr>files := [''/etc/yum.repos.d/local.repo'', ''/root/x86_64''] @ files fedora\<rparr>))
       \<lparr>self := (probed ''Fedora'')
          \<lparr>PkgSystem_local_repo_path := ''/etc/yum.repos.d/local.repo'',
           PkgSystem_local_rpm_dir := ''/root/x86_64''\<rparr>\<rparr>"

text \<open>
  Two runs of the script on that host. The first asks for a package that is not
  installed and cannot be installed: the query and the install fail, the download
  succeeds, the repository file is written and the indexing fails. The second asks,
  with \<^verbatim>\<open>-v\<close>, for the kernel that is installed.
\<close>

definition bash_nvr :: string where
  "bash_nvr = ''bash-5.1.0-1.fc34.x86_64''"

definition fatal_args :: "string list" where
  "fatal_args = [''--name'', ''bash'', ''--pkg'', bash_nvr, ''--build_id'', ''ab1234'']"

definition fatal_run :: "(exn + unit) \<times> test_host proc" where
  "fatal_run = main test_env ''prog'' fatal_args (start fedora)"

definition verbose_args :: "string list" where
  "verbose_args =
     [''-v'', ''--name'', ''kernel'', ''--pkg'', ''kernel-5.10.0-1.x86_64'',
      ''--build_id'', ''ab1234'']"

definition verbose_run :: "(exn + unit) \<times> test_host proc" where
  "verbose_run = main test_env ''prog'' verbose_args (start fedora)"

text \<open>The states between the three strategies of the first run.\<close>

definition after_query :: "test_host proc" where
  "after_query = snd (pkg_exists test_env ''bash'' bash_nvr ''ab1234'' (ready ''Fedora'' fedora))"

definition after_install :: "test_host proc" where
  "after_install = snd (pkg_install test_env ''bash'' bash_nvr ''ab1234'' after_query)"

definition after_download :: "test_host proc" where
  "after_download =
     snd (pkg_download_and_install test_env ''bash'' bash_nvr ''ab1234'' after_install)"


section \<open>Unfolding the model\<close>

lemmas run_defs = bind_def ret_def raise_def get_self_def set_self_def sys_exit_def
  print_def eprint_def print_if_verbose_def

lemmas os_defs = subprocess_call_def subprocess_check_output_def os_path_exists_def
  os_readlink_def os_remove_def shutil_rmtree_def write_file_def os_chdir_def

lemmas test_defs = test_env_def test_exec_def fedora_def start_def probed_def ready_def
  littered_def bash_nvr_def

section \<open>The build-identifier validator\<close>



section \<open>The already-installed check\<close>

text \<open>
  C6. With an empty build id and the exact nvr in the package database (the query
  \<^verbatim>\<open>rpm -qi nvr\<close> exits with 0), \<open>pkg_exists\<close> returns 1 and the query is the only
  call it makes: the validator, which would look at the build-id path, is not invoked.
\<close>

theorem pkg_exists_trusts_database:
  assumes "build_id = []"
    and "PkgSystem_pkgr_path (self s) = Some rpm"
    and "env_exec E [rpm, ''-qi'', pkg_nvr] (host s) = (Inr 0, w)"
  shows "pkg_exists E name pkg_nvr build_id s =
           (Inr 1,
            s\<lparr>host := w,
              trace := trace s @ [Exec [rpm, ''-qi'', pkg_nvr]],
              stdout := stdout s @
                (if PkgSystem_verbose (self s) \<noteq> 0
                 then [''Package '' @ pkg_nvr @ '' already exists on the system.'']
                 else [])\<rparr>)"
  using assms
  by (simp add: pkg_exists_def run_defs os_defs)

theorem pkg_exists_trusts_database_witness:
  "PkgSystem_pkgr_path (self (ready ''Fedora'' fedora)) = Some ''/usr/bin/rpm''
   \<and> env_exec test_env [''/usr/bin/rpm'', ''-qi'', ''kernel-devel-5.10.0-1.x86_64'']
         (host (ready ''Fedora'' fedora)) = (Inr 0, fedora)
   \<and> fst (pkg_exists test_env ''kernel-devel'' ''kernel-devel-5.10.0-1.x86_64'' []
            (ready ''Fedora'' fedora)) = Inr 1
   \<and> trace (snd (pkg_exists test_env ''kernel-devel'' ''kernel-devel-5.10.0-1.x86_64'' []
            (ready ''Fedora'' fedora)))
       = [Exec [''/usr/bin/rpm'', ''-qi'', ''kernel-devel-5.10.0-1.x86_64'']]"
proof -
  have path: "PkgSystem_pkgr_path (self (ready ''Fedora'' fedora)) = Some ''/usr/bin/rpm''"
    by (simp add: test_defs)
  have query: "env_exec test_env [''/usr/bin/rpm'', ''-qi'', ''kernel-devel-5.10.0-1.x86_64'']
                 (host (ready ''Fedora'' fedora)) = (Inr 0, fedora)"
    by (simp add: test_defs)
  have "trace (ready ''Fedora'' fedora) = []" by (simp add: test_defs)
  with pkg_exists_trusts_database [OF refl path query, where name = "''kernel-devel''"] path query
  show ?thesis by simp
qed

section \<open>The manual download\<close>

text \<open>
  C5. When no downloader was found, or no distribution was detected, or the detected
  distribution in lower case is not \<^verbatim>\<open>fedora\<close>, \<open>pkg_download_and_install\<close> returns 0
  at once: it writes one diagnostic and makes no call, so no download is attempted,
  whether or not a downloader is present.
\<close>

theorem download_refused_off_fedora:
  assumes "PkgSystem_wget_path (self s) = None
           \<or> PkgSystem_distro_id (self s) = None
           \<or> (\<exists>d. PkgSystem_distro_id (self s) = Some d \<and> lower d \<noteq> ''fedora'')"
  shows "pkg_download_and_install E name pkg_nvr build_id s =
           (Inr 0, s\<lparr>stderr := stderr s @ [''Can't download package '' @ quoted pkg_nvr]\<rparr>)"
  using assms
  by (auto simp add: pkg_download_and_install_def run_defs)

theorem download_refused_off_fedora_witness:
  "PkgSystem_wget_path (self (ready ''Ubuntu'' fedora)) = Some ''/usr/bin/wget''
   \<and> PkgSystem_distro_id (self (ready ''Ubuntu'' fedora)) = Some ''Ubuntu''
   \<and> lower ''Ubuntu'' \<noteq> ''fedora''
   \<and> fst (pkg_download_and_install test_env ''bash'' ''bash-5.1.0-1.fc34.x86_64'' ''ab1234''
            (ready ''Ubuntu'' fedora)) = Inr 0
   \<and> trace (snd (pkg_download_and_install test_env ''bash'' ''bash-5.1.0-1.fc34.x86_64'' ''ab1234''
            (ready ''Ubuntu'' fedora))) = []"
proof -
  have wget: "PkgSystem_wget_path (self (ready ''Ubuntu'' fedora)) = Some ''/usr/bin/wget''"
    by (simp add: test_defs)
  have distro: "PkgSystem_distro_id (self (ready ''Ubuntu'' fedora)) = Some ''Ubuntu''"
    by (simp add: test_defs)
  have other: "lower ''Ubuntu'' \<noteq> ''fedora''"
    by (simp add: lower_def lower_char_def)
  have quiet: "trace (ready ''Ubuntu'' fedora) = []" by (simp add: test_defs)
  from distro other
  have "PkgSystem_wget_path (self (ready ''Ubuntu'' fedora)) = None
        \<or> PkgSystem_distro_id (self (ready ''Ubuntu'' fedora)) = None
        \<or> (\<exists>d. PkgSystem_distro_id (self (ready ''Ubuntu'' fedora)) = Some d \<and> lower d \<noteq> ''fedora'')"
    by blast
  from download_refused_off_fedora [OF this, where E = test_env and name = "''bash''"
      and pkg_nvr = "''bash-5.1.0-1.fc34.x86_64''" and build_id = "''ab1234''"]
    wget distro other quiet
  show ?thesis by simp
qed

text \<open>
  C4. When the nvr does not match the pattern of line 163, \<open>pkg_download_and_install\<close>
  returns 0, writes one diagnostic that names the nvr, and makes no call (no download is
  attempted, nothing is raised): the diagnostic is the one for the refusal when the
  strategy is refused before the nvr is parsed, the one for the parse otherwise.
\<close>

theorem unparsed_nvr_fails:
  assumes "re_match nvra_regexp pkg_nvr = None"
  shows "pkg_download_and_install E name pkg_nvr build_id s =
           (Inr 0, s\<lparr>stderr := stderr s @ [''Can't download package '' @ quoted pkg_nvr]\<rparr>)
       \<or> pkg_download_and_install E name pkg_nvr build_id s =
           (Inr 0, s\<lparr>stderr := stderr s @ [''Can't parse package nvr '' @ quoted pkg_nvr]\<rparr>)"
  using assms
  by (auto simp add: pkg_download_and_install_def run_defs split: option.splits)

theorem unparsed_nvr_fails_witness:
  "re_match nvra_regexp ''badtoken'' = None
   \<and> pkg_download_and_install test_env ''badtoken'' ''badtoken'' ''ab1234'' (ready ''Fedora'' fedora)
       = (Inr 0, (ready ''Fedora'' fedora)\<lparr>stderr := [''Can't parse package nvr '' @ quoted ''badtoken'']\<rparr>)"
proof -
  have nomatch: "re_match nvra_regexp ''badtoken'' = None"
    by (simp add: re_match_def nvra_regexp_def is_word_def not_hyphen_def)
  have fed: "lower ''Fedora'' = ''fedora''"
    by (simp add: lower_def lower_char_def)
  have "pkg_download_and_install test_env ''badtoken'' ''badtoken'' ''ab1234'' (ready ''Fedora'' fedora)
          \<noteq> (Inr 0, (ready ''Fedora'' fedora)\<lparr>stderr := stderr (ready ''Fedora'' fedora)
                @ [''Can't download package '' @ quoted ''badtoken'']\<rparr>)"
    by (simp add: pkg_download_and_install_def run_defs test_defs fed nomatch quoted_def)
  with unparsed_nvr_fails [OF nomatch, where E = test_env and name = "''badtoken''"
      and build_id = "''ab1234''" and s = "ready ''Fedora'' fedora"]
  have "pkg_download_and_install test_env ''badtoken'' ''badtoken'' ''ab1234'' (ready ''Fedora'' fedora)
          = (Inr 0, (ready ''Fedora'' fedora)\<lparr>stderr := stderr (ready ''Fedora'' fedora)
                @ [''Can't parse package nvr '' @ quoted ''badtoken'']\<rparr>)"
    by blast
  moreover have "stderr (ready ''Fedora'' fedora) = []" by (simp add: test_defs)
  ultimately show ?thesis using nomatch by simp
qed

section \<open>The command line\<close>

text \<open>The loop of lines 256-264 leaves a variable as it was when its option is not given.\<close>

lemma foldl_handle_opt_name:
  "''--name'' \<notin> fst ` set opts \<Longrightarrow> fst (snd (foldl handle_opt (v, n, p, b) opts)) = n"
  by (induction opts arbitrary: v n p b) (auto simp: handle_opt_def)

lemma foldl_handle_opt_pkg:
  "''--pkg'' \<notin> fst ` set opts \<Longrightarrow> fst (snd (snd (foldl handle_opt (v, n, p, b) opts))) = p"
  by (induction opts arbitrary: v n p b) (auto simp: handle_opt_def)

lemma foldl_handle_opt_build_id:
  "''--build_id'' \<notin> fst ` set opts \<Longrightarrow>
     snd (snd (snd (foldl handle_opt (v, n, p, b) opts))) = b"
  by (induction opts arbitrary: v n p b) (auto simp: handle_opt_def)

text \<open>\<open>getopt\<close> raises nothing but \<^verbatim>\<open>GetoptError\<close>.\<close>

lemma long_has_args_error: "long_has_args opt longopts = Inl e \<Longrightarrow> \<exists>m. e = GetoptError m"
  by (auto simp: long_has_args_def Let_def split: if_splits)

lemma do_longs_error: "do_longs opts opt longopts args = Inl e \<Longrightarrow> \<exists>m. e = GetoptError m"
  by (auto simp: do_longs_def Let_def
           split: if_splits sum.splits prod.splits option.splits list.splits
           dest: long_has_args_error)

lemma short_has_arg_error: "short_has_arg opt shortopts = Inl e \<Longrightarrow> \<exists>m. e = GetoptError m"
  by (induction opt shortopts rule: short_has_arg.induct) (auto split: if_splits)

lemma do_shorts_error:
  "do_shorts opts optstring shortopts args = Inl e \<Longrightarrow> \<exists>m. e = GetoptError m"
  by (induction opts optstring shortopts args rule: do_shorts.induct)
     (auto split: if_splits sum.splits bool.splits list.splits dest: short_has_arg_error)

lemma getopt_loop_error:
  "getopt_loop opts args shortopts longopts = Inl e \<Longrightarrow> \<exists>m. e = GetoptError m"
proof (induction opts args shortopts longopts rule: getopt_loop.induct)
  case (1 opts args shortopts longopts)
  show ?case
  proof (cases args)
    case Nil
    with "1.prems" show ?thesis by simp
  next
    case (Cons a rest)
    with 1 show ?thesis
      by (auto split: if_splits sum.splits prod.splits dest: do_longs_error do_shorts_error)
  qed
qed

text \<open>
  C9. An option is given when \<open>getopt\<close> returns it among the options it parsed. When
  \<open>getopt\<close> rejects the command line, or one of \<^verbatim>\<open>--name\<close>, \<^verbatim>\<open>--pkg\<close>,
  \<^verbatim>\<open>--build_id\<close> is not given, or a positional argument is left over,
  \<open>handle_command_line\<close> ends the process with exit code 1; all it does before is write
  to standard error, and the last line written is the usage message.
\<close>

theorem bad_command_line_exits:
  assumes "\<forall>opts pargs.
             getopt args ''v'' [''name='', ''pkg='', ''build_id=''] = Inr (opts, pargs) \<longrightarrow>
               ''--name'' \<notin> fst ` set opts \<or> ''--pkg'' \<notin> fst ` set opts
               \<or> ''--build_id'' \<notin> fst ` set opts \<or> pargs \<noteq> []"
  shows "\<exists>errs. handle_command_line prog args s =
           (Inl (SystemExit 1), s\<lparr>stderr := stderr s @ errs @ [usage_line prog]\<rparr>)"
proof (cases "length (prog # args) < 4")
  case True
  then have "handle_command_line prog args s =
           (Inl (SystemExit 1), s\<lparr>stderr := stderr s @ [] @ [usage_line prog]\<rparr>)"
    by (simp add: handle_command_line_def usage_def run_defs)
  then show ?thesis by blast
next
  case long: False
  show ?thesis
  proof (cases "getopt args ''v'' [''name='', ''pkg='', ''build_id='']")
    case (Inl e)
    then obtain m where "e = GetoptError m"
      unfolding getopt_def by (blast dest: getopt_loop_error)
    with Inl long have "handle_command_line prog args s =
           (Inl (SystemExit 1), s\<lparr>stderr := stderr s @ [''Error: '' @ m] @ [usage_line prog]\<rparr>)"
      by (simp add: handle_command_line_def usage_def run_defs)
    then show ?thesis by blast
  next
    case (Inr r)
    obtain opts pargs where r: "r = (opts, pargs)" by (cases r)
    obtain verbose name pkg_nvr build_id
      where acc: "foldl handle_opt (0, [], [], []) opts = (verbose, name, pkg_nvr, build_id)"
      by (cases "foldl handle_opt (0, [], [], []) opts") auto
    from assms Inr r have bad:
      "''--name'' \<notin> fst ` set opts \<or> ''--pkg'' \<notin> fst ` set opts
         \<or> ''--build_id'' \<notin> fst ` set opts \<or> pargs \<noteq> []"
      by simp
    show ?thesis
    proof (cases "pargs \<noteq> []")
      case True
      with Inr r long acc have "handle_command_line prog args s =
           (Inl (SystemExit 1), s\<lparr>stderr := stderr s @ [] @ [usage_line prog]\<rparr>)"
        by (simp add: handle_command_line_def usage_def run_defs)
      then show ?thesis by blast
    next
      case False
      with bad have "name = [] \<or> pkg_nvr = [] \<or> build_id = []"
        using foldl_handle_opt_name [of opts 0 "[]" "[]" "[]"]
              foldl_handle_opt_pkg [of opts 0 "[]" "[]" "[]"]
              foldl_handle_opt_build_id [of opts 0 "[]" "[]" "[]"]
        by (auto simp: acc)
      with False Inr r long acc have "handle_command_line prog args s =
           (Inl (SystemExit 1), s\<lparr>stderr := stderr s @
              [''Error: '--name', '--pkg', and '--build_id' are required arguments.'']
              @ [usage_line prog]\<rparr>)"
        by (simp add: handle_command_line_def usage_def run_defs)
      then show ?thesis by blast
    qed
  qed
qed

text \<open>
  The witness: a command line without \<^verbatim>\<open>--pkg\<close>, and one with all three options and a
  positional argument after them.
\<close>

theorem bad_command_line_exits_witness:
  "getopt [''-v'', ''--name'', ''bash'', ''--build_id'', ''ab1234''] ''v''
       [''name='', ''pkg='', ''build_id='']
     = Inr ([(''-v'', []), (''--name'', ''bash''), (''--build_id'', ''ab1234'')], [])
   \<and> fst (handle_command_line ''prog'' [''-v'', ''--name'', ''bash'', ''--build_id'', ''ab1234'']
            (start fedora)) = Inl (SystemExit 1)
   \<and> last (stderr (snd (handle_command_line ''prog''
            [''-v'', ''--name'', ''bash'', ''--build_id'', ''ab1234''] (start fedora))))
       = usage_line ''prog''
   \<and> getopt [''--name'', ''bash'', ''--pkg'', ''bash-5.1.0-1.fc34.x86_64'', ''--build_id'',
              ''ab1234'', ''extra''] ''v'' [''name='', ''pkg='', ''build_id='']
     = Inr ([(''--name'', ''bash''), (''--pkg'', ''bash-5.1.0-1.fc34.x86_64''),
             (''--build_id'', ''ab1234'')], [''extra''])
   \<and> fst (handle_command_line ''prog''
            [''--name'', ''bash'', ''--pkg'', ''bash-5.1.0-1.fc34.x86_64'', ''--build_id'',
             ''ab1234'', ''extra''] (start fedora)) = Inl (SystemExit 1)
   \<and> last (stderr (snd (handle_command_line ''prog''
            [''--name'', ''bash'', ''--pkg'', ''bash-5.1.0-1.fc34.x86_64'', ''--build_id'',
             ''ab1234'', ''extra''] (start fedora))))
       = usage_line ''prog''"
proof -
  have parsed: "getopt [''-v'', ''--name'', ''bash'', ''--build_id'', ''ab1234''] ''v''
       [''name='', ''pkg='', ''build_id='']
     = Inr ([(''-v'', []), (''--name'', ''bash''), (''--build_id'', ''ab1234'')], [])"
    by (simp add: getopt_def do_longs_def long_has_args_def startswith_def Let_def)
  have parsed': "getopt [''--name'', ''bash'', ''--pkg'', ''bash-5.1.0-1.fc34.x86_64'',
              ''--build_id'', ''ab1234'', ''extra''] ''v'' [''name='', ''pkg='', ''build_id='']
     = Inr ([(''--name'', ''bash''), (''--pkg'', ''bash-5.1.0-1.fc34.x86_64''),
             (''--build_id'', ''ab1234'')], [''extra''])"
    by (simp add: getopt_def do_longs_def long_has_args_def startswith_def Let_def)
  from parsed have
    "\<forall>opts pargs.
       getopt [''-v'', ''--name'', ''bash'', ''--build_id'', ''ab1234''] ''v''
         [''name='', ''pkg='', ''build_id=''] = Inr (opts, pargs) \<longrightarrow>
         ''--name'' \<notin> fst ` set opts \<or> ''--pkg'' \<notin> fst ` set opts
         \<or> ''--build_id'' \<notin> fst ` set opts \<or> pargs \<noteq> []"
    by simp
  from bad_command_line_exits [OF this, where prog = "''prog''" and s = "start fedora"]
  obtain errs where run:
    "handle_command_line ''prog'' [''-v'', ''--name'', ''bash'', ''--build_id'', ''ab1234'']
       (start fedora)
     = (Inl (SystemExit 1),
        (start fedora)\<lparr>stderr := stderr (start fedora) @ errs @ [usage_line ''prog'']\<rparr>)"
    by blast
  from parsed' have
    "\<forall>opts pargs.
       getopt [''--name'', ''bash'', ''--pkg'', ''bash-5.1.0-1.fc34.x86_64'', ''--build_id'',
               ''ab1234'', ''extra''] ''v'' [''name='', ''pkg='', ''build_id='']
         = Inr (opts, pargs) \<longrightarrow>
         ''--name'' \<notin> fst ` set opts \<or> ''--pkg'' \<notin> fst ` set opts
         \<or> ''--build_id'' \<notin> fst ` set opts \<or> pargs \<noteq> []"
    by simp
  from bad_command_line_exits [OF this, where prog = "''prog''" and s = "start fedora"]
  obtain errs' where run':
    "handle_command_line ''prog''
       [''--name'', ''bash'', ''--pkg'', ''bash-5.1.0-1.fc34.x86_64'', ''--build_id'',
        ''ab1234'', ''extra''] (start fedora)
     = (Inl (SystemExit 1),
        (start fedora)\<lparr>stderr := stderr (start fedora) @ errs' @ [usage_line ''prog'']\<rparr>)"
    by blast
  show ?thesis
    by (simp only: run run' parsed parsed') simp
qed

section \<open>The list of packages\<close>

text \<open>The kernel pattern matches exactly the names that begin with \<^verbatim>\<open>kernel\<close>.\<close>

lemma short_not_kernel: "length name < 6 \<Longrightarrow> take 6 name \<noteq> ''kernel''"
proof
  assume short: "length name < 6" and eq: "take 6 name = ''kernel''"
  have "length (take 6 name) = length ''kernel''" by (simp only: eq)
  with short show False by simp
qed

lemma long_shape:
  assumes "\<not> length name < 6"
  obtains a b c d e f rest where "name = a # b # c # d # e # f # rest"
proof -
  from assms have "Suc (Suc (Suc (Suc (Suc (Suc 0))))) \<le> length name"
    by (simp add: eval_nat_numeral)
  then show ?thesis using that
    by (auto simp: Suc_le_length_iff)
qed

lemma rx_run_Opt_final: "rx_run s (Opt a) i g (\<lambda>j h. Some h) \<noteq> None"
  by (simp split: option.splits)

lemma kernel_short: "length name < 6 \<Longrightarrow> re_match kernel_regexp name = None"
  by (simp add: re_match_def kernel_regexp_def del: rx_run.simps(4,5))

lemma kernel_long:
  "re_match kernel_regexp (a # b # c # d # e # f # rest) \<noteq> None \<longleftrightarrow>
     a # b # c # d # e # [f] = ''kernel''"
  using rx_run_Opt_final
  by (simp add: re_match_def kernel_regexp_def del: rx_run.simps(4,5))

lemma kernel_regexp_match:
  "re_match kernel_regexp name \<noteq> None \<longleftrightarrow> take 6 name = ''kernel''"
proof (cases "length name < 6")
  case True
  then have a: "re_match kernel_regexp name = None" by (rule kernel_short)
  from True have b: "take 6 name \<noteq> ''kernel''" by (rule short_not_kernel)
  show ?thesis by (simp only: a b simp_thms)
next
  case False
  then obtain a b c d e f rest where "name = a # b # c # d # e # f # rest"
    by (rule long_shape)
  then show ?thesis using kernel_long [of a b c d e f rest] by simp
qed

text \<open>
  C10, as amended. For every name whose first six characters are \<^verbatim>\<open>kernel\<close>, whatever
  follows them, the kernel pattern matches and \<^verbatim>\<open>re.sub(name, name + '-devel', pkg_nvr)\<close>
  is called with the name as its pattern. When the call returns, the list of packages is
  the primary descriptor followed by the derived one: the name with \<^verbatim>\<open>-devel\<close>
  appended, the nvr returned, and an empty build id. When the call raises, there is no
  list of packages: the error goes on. The call returns for every name without a special
  character, with every occurrence of the name in the nvr replaced; it raises
  \<^verbatim>\<open>re.error\<close> for every name whose only special characters are opening parentheses.
\<close>

theorem kernel_prefix_adds_devel:
  assumes "take 6 name = ''kernel''"
  shows "packages_of E name pkg_nvr build_id =
           (case re_sub E name (name @ ''-devel'') pkg_nvr of
              Inl e \<Rightarrow> Inl e
            | Inr devel_nvr \<Rightarrow>
                Inr [(name, pkg_nvr, build_id), (name @ ''-devel'', devel_nvr, [])])
         \<and> (\<not> list_ex re_special name \<longrightarrow>
              packages_of E name pkg_nvr build_id =
                Inr [(name, pkg_nvr, build_id),
                     (name @ ''-devel'', sub_plain name (name @ ''-devel'') pkg_nvr, [])])
         \<and> (unclosed_group name \<longrightarrow> packages_of E name pkg_nvr build_id = Inl ReError)"
proof -
  from assms obtain match where m: "re_match kernel_regexp name = Some match"
    using kernel_regexp_match [of name] by auto
  have general: "packages_of E name pkg_nvr build_id =
           (case re_sub E name (name @ ''-devel'') pkg_nvr of
              Inl e \<Rightarrow> Inl e
            | Inr devel_nvr \<Rightarrow>
                Inr [(name, pkg_nvr, build_id), (name @ ''-devel'', devel_nvr, [])])"
    using m by (simp add: packages_of_def Let_def split: sum.splits)
  from assms have nonempty: "name \<noteq> []" by auto
  have closed: "\<not> unclosed_group name" if "\<not> list_ex re_special name"
    using that by (auto simp add: unclosed_group_def list_ex_iff re_special_def)
  have literal: "CHR 0x5C \<notin> set (name @ ''-devel'')" if "\<not> list_ex re_special name"
    using that by (auto simp add: list_ex_iff re_special_def)
  have plain: "re_sub E name (name @ ''-devel'') pkg_nvr
                 = Inr (sub_plain name (name @ ''-devel'') pkg_nvr)"
    if "\<not> list_ex re_special name"
    using that nonempty closed [OF that] literal [OF that]
    by (simp add: re_sub_def del: sub_plain.simps)
  have unclosed: "re_sub E name (name @ ''-devel'') pkg_nvr = Inl ReError"
    if "unclosed_group name"
    using that by (simp add: re_sub_def)
  show ?thesis
    using general plain unclosed by (simp del: sub_plain.simps)
qed

text \<open>
  The witness: \<^verbatim>\<open>kernelfoo\<close> has no special character and gets its derived descriptor;
  \<^verbatim>\<open>kernel(debug\<close> opens a group and gets none.
\<close>

theorem kernel_prefix_adds_devel_witness:
  "take 6 ''kernelfoo'' = ''kernel''
   \<and> \<not> list_ex re_special ''kernelfoo''
   \<and> packages_of test_env ''kernelfoo'' ''kernelfoo-5.10.0-1.x86_64'' ''ab1234''
       = Inr [(''kernelfoo'', ''kernelfoo-5.10.0-1.x86_64'', ''ab1234''),
              (''kernelfoo-devel'', ''kernelfoo-devel-5.10.0-1.x86_64'', [])]
   \<and> take 6 ''kernel(debug'' = ''kernel''
   \<and> unclosed_group ''kernel(debug''
   \<and> packages_of test_env ''kernel(debug'' ''kernel-5.10.0-1.x86_64'' ''ab1234'' = Inl ReError"
proof -
  have pre: "take 6 ''kernelfoo'' = ''kernel''" by simp
  have plain: "\<not> list_ex re_special ''kernelfoo''" by (simp add: re_special_def)
  have sub: "sub_plain ''kernelfoo'' (''kernelfoo'' @ ''-devel'') ''kernelfoo-5.10.0-1.x86_64''
               = ''kernelfoo-devel-5.10.0-1.x86_64''"
    by simp
  have pre': "take 6 ''kernel(debug'' = ''kernel''" by simp
  have unclosed: "unclosed_group ''kernel(debug''"
    by (simp add: unclosed_group_def re_special_def)
  have "packages_of test_env ''kernelfoo'' ''kernelfoo-5.10.0-1.x86_64'' ''ab1234''
          = Inr [(''kernelfoo'', ''kernelfoo-5.10.0-1.x86_64'', ''ab1234''),
                 (''kernelfoo'' @ ''-devel'',
                  sub_plain ''kernelfoo'' (''kernelfoo'' @ ''-devel'') ''kernelfoo-5.10.0-1.x86_64'',
                  [])]"
    by (rule kernel_prefix_adds_devel [OF pre, THEN conjunct2, THEN conjunct1, THEN mp, OF plain])
  then have foo: "packages_of test_env ''kernelfoo'' ''kernelfoo-5.10.0-1.x86_64'' ''ab1234''
          = Inr [(''kernelfoo'', ''kernelfoo-5.10.0-1.x86_64'', ''ab1234''),
                 (''kernelfoo-devel'', ''kernelfoo-devel-5.10.0-1.x86_64'', [])]"
    unfolding sub by simp
  have debug: "packages_of test_env ''kernel(debug'' ''kernel-5.10.0-1.x86_64'' ''ab1234''
                 = Inl ReError"
    by (rule kernel_prefix_adds_devel [OF pre', THEN conjunct2, THEN conjunct2, THEN mp, OF unclosed])
  show ?thesis
    by (simp only: pre plain foo pre' unclosed debug simp_thms)
qed

text \<open>
  The claim as stated (C10) fails at the name \<^verbatim>\<open>kernel(\<close>. Its first six characters are
  \<^verbatim>\<open>kernel\<close> and the kernel pattern matches it, but line 292 raises \<^verbatim>\<open>re.error\<close>:
  no derived descriptor is appended and there is no list of packages. The script run
  with that name ends with the error right after the change of directory, before the
  package system is probed and before any package is looked at.
\<close>

theorem unclosed_group_name_raises:
  "take 6 ''kernel('' = ''kernel''
   \<and> re_match kernel_regexp ''kernel('' \<noteq> None
   \<and> packages_of test_env ''kernel('' ''kernel-5.10.0-1.x86_64'' ''ab1234'' = Inl ReError
   \<and> fst (main test_env ''prog''
            [''--name'', ''kernel('', ''--pkg'', ''kernel-5.10.0-1.x86_64'',
             ''--build_id'', ''ab1234''] (start fedora)) = Inl ReError
   \<and> trace (snd (main test_env ''prog''
            [''--name'', ''kernel('', ''--pkg'', ''kernel-5.10.0-1.x86_64'',
             ''--build_id'', ''ab1234''] (start fedora))) = [Chdir ''/root'']
   \<and> stderr (snd (main test_env ''prog''
            [''--name'', ''kernel('', ''--pkg'', ''kernel-5.10.0-1.x86_64'',
             ''--build_id'', ''ab1234''] (start fedora))) = []"
  by code_simp

text \<open>
  C7. For the name \<^verbatim>\<open>kernel-PAE\<close> and the package \<^verbatim>\<open>kernel-PAE-5.10.0-1.x86_64\<close> the
  list of packages is the primary descriptor followed by exactly one derived descriptor,
  \<^verbatim>\<open>kernel-PAE-devel\<close> with nvr \<^verbatim>\<open>kernel-PAE-devel-5.10.0-1.x86_64\<close> and an empty
  build id.
\<close>

theorem kernel_PAE_packages:
  "packages_of E ''kernel-PAE'' ''kernel-PAE-5.10.0-1.x86_64'' build_id =
     Inr [(''kernel-PAE'', ''kernel-PAE-5.10.0-1.x86_64'', build_id),
          (''kernel-PAE-devel'', ''kernel-PAE-devel-5.10.0-1.x86_64'', [])]"
proof -
  have "re_match kernel_regexp ''kernel-PAE'' \<noteq> None"
    by (simp add: re_match_def kernel_regexp_def is_word_def split: option.splits)
  then obtain match where "re_match kernel_regexp ''kernel-PAE'' = Some match"
    by auto
  moreover have "re_sub E ''kernel-PAE'' (''kernel-PAE'' @ ''-devel'') ''kernel-PAE-5.10.0-1.x86_64''
                   = Inr ''kernel-PAE-devel-5.10.0-1.x86_64''"
    by (simp add: re_sub_def unclosed_group_def re_special_def)
  ultimately show ?thesis
    by (simp add: packages_of_def Let_def)
qed

section \<open>Cleanup\<close>




















section \<open>The loop over the packages\<close>

lemma install_packages_append:
  "install_packages E (xs @ ys) = bind (install_packages E xs) (\<lambda>_. install_packages E ys)"
proof (induction xs)
  case Nil
  show ?case by (rule ext) (simp add: bind_def ret_def)
next
  case (Cons x xs)
  obtain name pkg_nvr build_id where x: "x = (name, pkg_nvr, build_id)" by (cases x)
  show ?case
    unfolding x using Cons.IH
    by (intro ext)
       (simp add: bind_def eprint_def sys_exit_def raise_def split: sum.splits prod.splits)
qed

text \<open>
  C2, as amended. When the packages before it are done and the three strategies return
  0 for a descriptor, the rest of \<open>main\<close> (the loop, the closing message, the cleanup
  and the exit with 0) ends with \<^verbatim>\<open>SystemExit(1)\<close> in the state that the third strategy
  left, with the diagnostic naming the nvr added to standard error and nothing else:
  the descriptors after it are not processed and \<open>cleanup\<close> is not run.
\<close>

theorem exhausted_strategies_exit:
  assumes "install_packages E before s0 = (Inr (), s)"
    and "pkg_exists E name pkg_nvr build_id s = (Inr 0, s1)"
    and "pkg_install E name pkg_nvr build_id s1 = (Inr 0, s2)"
    and "pkg_download_and_install E name pkg_nvr build_id s2 = (Inr 0, s3)"
  shows "bind (install_packages E (before @ (name, pkg_nvr, build_id) # rest)) (\<lambda>_.
         bind (if verbose \<noteq> 0 then print ''All packages installed.'' else ret ()) (\<lambda>_.
         bind (cleanup E) (\<lambda>_.
         sys_exit 0))) s0
         = (Inl (SystemExit 1),
            s3\<lparr>stderr := stderr s3 @ [''Can't find package '' @ quoted pkg_nvr]\<rparr>)"
  using assms
  by (simp add: install_packages_append bind_def eprint_def sys_exit_def raise_def)

lemma query_fails:
  "pkg_exists test_env ''bash'' bash_nvr ''ab1234'' (ready ''Fedora'' fedora) = (Inr 0, after_query)"
  by (simp add: after_query_def pkg_exists_def run_defs os_defs test_defs)

lemma after_query_state:
  "after_query =
     (ready ''Fedora'' fedora)\<lparr>trace := [Exec [''/usr/bin/rpm'', ''-qi'', bash_nvr]]\<rparr>"
  by (simp add: after_query_def pkg_exists_def run_defs os_defs test_defs)

lemma install_fails:
  "pkg_install test_env ''bash'' bash_nvr ''ab1234'' after_query = (Inr 0, after_install)"
  by (simp add: after_install_def after_query_state pkg_install_def run_defs os_defs test_defs)

lemma after_install_state:
  "after_install =
     (ready ''Fedora'' fedora)\<lparr>trace :=
        [Exec [''/usr/bin/rpm'', ''-qi'', bash_nvr],
         Exec [''/usr/bin/dnf'', ''install'', ''-y'', bash_nvr]]\<rparr>"
  by (simp add: after_install_def after_query_state pkg_install_def run_defs os_defs test_defs)

lemma bash_nvr_parsed:
  "map_option (\<lambda>m. (m 1, m 2, m 3, m 4)) (re_match nvra_regexp bash_nvr)
     = Some (Some ''bash'', Some ''5.1.0'', Some ''1.fc34'', Some ''x86_64'')"
  by (simp add: bash_nvr_def re_match_def nvra_regexp_def is_word_def not_hyphen_def)

lemma download_fails:
  "pkg_download_and_install test_env ''bash'' bash_nvr ''ab1234'' after_install
     = (Inr 0, after_download)"
  by (simp add: after_download_def after_install_state pkg_download_and_install_def
        run_defs os_defs test_defs lower_def lower_char_def
        re_match_def nvra_regexp_def is_word_def not_hyphen_def
        quoted_def basename_def Let_def)

lemma after_download_state:
  "PkgSystem_local_repo_path (self after_download) = ''/etc/yum.repos.d/local.repo''
   \<and> PkgSystem_local_rpm_dir (self after_download) = ''/root/x86_64''
   \<and> files (host after_download)
       = [''/etc/yum.repos.d/local.repo'', ''/root/x86_64''] @ files fedora
   \<and> trace after_download =
       [Exec [''/usr/bin/rpm'', ''-qi'', bash_nvr],
        Exec [''/usr/bin/dnf'', ''install'', ''-y'', bash_nvr],
        Exec [''wget'', ''--quiet'', ''-nH'', ''--cut-dirs=4'', ''-r'', ''-l'', ''1'',
              ''http://kojipkgs.fedoraproject.org/packages/bash/5.1.0/1.fc34/x86_64''],
        Stat ''/etc/yum.repos.d/local.repo'',
        Creat ''/etc/yum.repos.d/local.repo'' (local_repo_text ''/root/x86_64''),
        Exec [''createrepo_c'', ''--quiet'', ''x86_64'']]"
  by (simp add: after_download_def after_install_state pkg_download_and_install_def
        run_defs os_defs test_defs lower_def lower_char_def
        re_match_def nvra_regexp_def is_word_def not_hyphen_def
        quoted_def basename_def Let_def)

text \<open>
  The witness: the first run, from the probed process on. Its three strategies fail, it
  ends with \<^verbatim>\<open>SystemExit(1)\<close>, and the trace ends with the last call of the third
  strategy.
\<close>

theorem exhausted_strategies_exit_witness:
  "install_packages test_env [] (ready ''Fedora'' fedora) = (Inr (), ready ''Fedora'' fedora)
   \<and> pkg_exists test_env ''bash'' bash_nvr ''ab1234'' (ready ''Fedora'' fedora)
       = (Inr 0, after_query)
   \<and> pkg_install test_env ''bash'' bash_nvr ''ab1234'' after_query = (Inr 0, after_install)
   \<and> pkg_download_and_install test_env ''bash'' bash_nvr ''ab1234'' after_install
       = (Inr 0, after_download)
   \<and> bind (install_packages test_env ([] @ (''bash'', bash_nvr, ''ab1234'') # [])) (\<lambda>_.
      bind (if (0::int) \<noteq> 0 then print ''All packages installed.'' else ret ()) (\<lambda>_.
      bind (cleanup test_env) (\<lambda>_.
      sys_exit 0))) (ready ''Fedora'' fedora)
       = (Inl (SystemExit 1),
          after_download\<lparr>stderr := stderr after_download
             @ [''Can't find package '' @ quoted bash_nvr]\<rparr>)"
proof -
  have none: "install_packages test_env [] (ready ''Fedora'' fedora)
                = (Inr (), ready ''Fedora'' fedora)"
    by (simp add: ret_def)
  from exhausted_strategies_exit [OF none query_fails install_fails download_fails,
         where rest = "[]" and verbose = 0]
    none query_fails install_fails download_fails
  show ?thesis by simp
qed

text \<open>
  The claim as stated fails on the first run, from the command line on: the process
  ends with \<^verbatim>\<open>SystemExit(1)\<close> after the diagnostic, the object has the repository file and
  the download directory recorded, both still exist, and no call removed anything:
  \<open>cleanup\<close>, which would have removed both, did not run.
\<close>

theorem no_cleanup_on_fatal_exit:
  "fst fatal_run = Inl (SystemExit 1)
   \<and> last (stderr (snd fatal_run)) = ''Can't find package '' @ quoted bash_nvr
   \<and> PkgSystem_local_repo_path (self (snd fatal_run)) = ''/etc/yum.repos.d/local.repo''
   \<and> PkgSystem_local_rpm_dir (self (snd fatal_run)) = ''/root/x86_64''
   \<and> files (host (snd fatal_run))
       = [''/etc/yum.repos.d/local.repo'', ''/root/x86_64''] @ files fedora
   \<and> Unlink ''/etc/yum.repos.d/local.repo'' \<notin> set (trace (snd fatal_run))
   \<and> Rmtree ''/root/x86_64'' \<notin> set (trace (snd fatal_run))
   \<and> files (host (snd (cleanup test_env (snd fatal_run)))) = files fedora"
  unfolding fatal_run_def fatal_args_def
  by code_simp

section \<open>Verbosity\<close>

text \<open>
  C8 fails on the code. The second run is given \<^verbatim>\<open>-v\<close> and finds the kernel installed
  with a build id that matches, then the development package installed: the query for
  it is the last call, the run ends with \<^verbatim>\<open>SystemExit(0)\<close>, and standard output holds the
  closing message of \<open>main\<close> only. The message that the package already exists is not
  written, because \<^verbatim>\<open>self.__verbose\<close> is 0 whatever the command line says.
\<close>

theorem verbose_run_prints_closing_line_only:
  "fst verbose_run = Inl (SystemExit 0)
   \<and> stdout (snd verbose_run) = [''All packages installed.'']
   \<and> last (trace (snd verbose_run))
       = Exec [''/usr/bin/rpm'', ''-qi'', ''kernel-devel-5.10.0-1.x86_64'']
   \<and> PkgSystem_verbose (self (snd verbose_run)) = 0"
  unfolding verbose_run_def verbose_args_def
  by code_simp

end
